theory Spec2Isabelle
  imports Main "HOL-Library.Word" "HOL-Library.AList"
begin

section \<open>The value bridge and the docstring patcher of \<open>python/pybind11_utils.cc\<close>\<close>

text \<open>
  The file holds two independent pieces: \<open>from_json\<close> / \<open>to_json\<close>, which convert between
  \<open>nlohmann::json\<close> values and Python objects, and \<open>vineyard_add_doc\<close>, which writes a
  docstring into an object that has none yet. Both are embedded below as HOL functions that
  follow the C++ branch by branch.
\<close>

subsection \<open>Structured values\<close>

text \<open>
  A \<open>json\<close> value is one of the eight kinds of \<open>nlohmann::json\<close>. The two integer kinds hold a
  64-bit pattern: \<open>number_integer_t\<close> is read with \<open>sint\<close>, \<open>number_unsigned_t\<close> with \<open>uint\<close>.
  A \<open>double\<close> is kept as its 64-bit IEEE-754 pattern; the conversions below only copy it, so
  no floating-point arithmetic is needed. A string is the byte sequence of a
  \<open>std::string\<close>: the json library expects UTF-8 there, but a value built in memory can
  hold any bytes. An object lists its entries in the order of iteration; its keys are
  pairwise distinct.
\<close>

type_synonym number_integer_t = "64 word"
type_synonym number_unsigned_t = "64 word"
type_synonym double = "64 word"

datatype json =
    Null
  | Boolean bool
  | NumberInteger number_integer_t
  | NumberUnsigned number_unsigned_t
  | NumberFloat double
  | String string
  | Array "json list"
  | Object "(string \<times> json) list"

text \<open>
  The type queries of the json library. \<open>is_number_integer\<close> holds for both integer kinds
  (signed and unsigned), \<open>is_number_unsigned\<close> for the unsigned kind only.
\<close>

definition is_null :: "json \<Rightarrow> bool" where
  "is_null j = (case j of Null \<Rightarrow> True | _ \<Rightarrow> False)"

definition is_boolean :: "json \<Rightarrow> bool" where
  "is_boolean j = (case j of Boolean _ \<Rightarrow> True | _ \<Rightarrow> False)"

definition is_number_integer :: "json \<Rightarrow> bool" where
  "is_number_integer j =
     (case j of NumberInteger _ \<Rightarrow> True | NumberUnsigned _ \<Rightarrow> True | _ \<Rightarrow> False)"

definition is_number_unsigned :: "json \<Rightarrow> bool" where
  "is_number_unsigned j = (case j of NumberUnsigned _ \<Rightarrow> True | _ \<Rightarrow> False)"

definition is_number_float :: "json \<Rightarrow> bool" where
  "is_number_float j = (case j of NumberFloat _ \<Rightarrow> True | _ \<Rightarrow> False)"

definition is_string :: "json \<Rightarrow> bool" where
  "is_string j = (case j of String _ \<Rightarrow> True | _ \<Rightarrow> False)"

definition is_array :: "json \<Rightarrow> bool" where
  "is_array j = (case j of Array _ \<Rightarrow> True | _ \<Rightarrow> False)"

text \<open>
  The accessors \<open>j.get<T>()\<close>, each used under the type query that guards it in
  \<open>from_json\<close>. \<open>get<number_integer_t>\<close> of an unsigned value is the \<open>static_cast\<close> of the
  stored 64 bits to the signed type: the same bit pattern. Outside their guard the accessors
  return a default that no branch of \<open>from_json\<close> reads.
\<close>

definition get_bool :: "json \<Rightarrow> bool" where
  "get_bool j = (case j of Boolean b \<Rightarrow> b | _ \<Rightarrow> False)"

definition get_number_integer :: "json \<Rightarrow> number_integer_t" where
  "get_number_integer j = (case j of NumberInteger s \<Rightarrow> s | NumberUnsigned u \<Rightarrow> u | _ \<Rightarrow> 0)"

definition get_number_unsigned :: "json \<Rightarrow> number_unsigned_t" where
  "get_number_unsigned j = (case j of NumberUnsigned u \<Rightarrow> u | NumberInteger s \<Rightarrow> s | _ \<Rightarrow> 0)"

definition get_double :: "json \<Rightarrow> double" where
  "get_double j = (case j of NumberFloat d \<Rightarrow> d | _ \<Rightarrow> 0)"

definition get_string :: "json \<Rightarrow> string" where
  "get_string j = (case j of String s \<Rightarrow> s | _ \<Rightarrow> [])"

definition array_items :: "json \<Rightarrow> json list" where
  "array_items j = (case j of Array els \<Rightarrow> els | _ \<Rightarrow> [])"

definition object_items :: "json \<Rightarrow> (string \<times> json) list" where
  "object_items j = (case j of Object kvs \<Rightarrow> kvs | _ \<Rightarrow> [])"

text \<open>
  Modelled from the spec: the header \<open>common/util/json.h\<close>, which declares the type \<open>json\<close>
  and with it the container of an object, is not among the sources. The specification
  describes an object as a ``mapping from String to Structured Value, insertion order
  preserved''; so \<open>out[k] = v\<close> replaces the value of a key that is present, in place, and
  puts a new key at the end.
\<close>

definition object_setitem ::
  "(string \<times> json) list \<Rightarrow> string \<Rightarrow> json \<Rightarrow> (string \<times> json) list" where
  "object_setitem out k v = AList.update k v out"

subsection \<open>Runtime values\<close>

text \<open>
  A \<open>pyobj\<close> is what a \<open>py::handle\<close> can refer to, by kind:
  \<^item> \<open>NullHandle\<close> is the handle whose pointer is \<open>nullptr\<close>;
  \<^item> \<open>PyInt\<close> holds an unbounded Python integer; \<open>PyBool\<close> is an instance of \<open>bool\<close>,
    which in Python is a subclass of \<open>int\<close>;
  \<^item> \<open>PyBytes\<close> holds the raw bytes (a \<open>char\<close> is a byte);
  \<^item> \<open>PyStr\<close> is a text object, given by its UTF-8 encoding; \<open>PyStrLone\<close> is a text object
    that contains a lone surrogate and therefore has no UTF-8 encoding, given by its code
    points;
  \<^item> \<open>PyDict\<close> lists the entries of a dict in insertion order; the keys of a dict are
    pairwise different, so \<open>obj[key]\<close> for a key met during iteration is the value listed
    with it;
  \<^item> \<open>PyOther\<close> is an object of any other type, given by its \<open>repr\<close>.
\<close>

datatype pyobj =
    NullHandle
  | PyNone
  | PyBool bool
  | PyInt int
  | PyFloat double
  | PyBytes string
  | PyStr string
  | PyStrLone "nat list"
  | PyTuple "pyobj list"
  | PyList "pyobj list"
  | PyDict "(pyobj \<times> pyobj) list"
  | PyOther string

text \<open>
  The exceptions that leave \<open>from_json\<close> and \<open>to_json\<close>. The two \<open>throw std::runtime_error\<close>
  of \<open>to_json\<close> carry a message; the specification names them \<open>IntegerOutOfRange\<close> and
  \<open>UnsupportedType\<close>. \<open>CastError\<close> is a \<open>py::cast_error\<close>. \<open>UnicodeDecodeError\<close> and
  \<open>ValueError\<close> are exceptions of the Python runtime, which pybind11 passes on as
  \<open>py::error_already_set\<close>.
\<close>

datatype error =
    IntegerOutOfRange string
  | UnsupportedType string
  | CastError
  | UnicodeDecodeError
  | ValueError

text \<open>
  \<open>py::str(const std::string&)\<close> decodes the bytes as UTF-8 and throws when they are not
  well-formed. \<open>utf8_valid\<close> is well-formed UTF-8 as the Unicode standard defines it (table
  3-7) and as the decoder of the runtime checks it: a byte below \<open>80\<close>; a lead byte
  \<open>C2..DF\<close> with one continuation byte \<open>80..BF\<close>; a lead byte \<open>E0..EF\<close> with two (the first
  from \<open>A0\<close> after \<open>E0\<close>, which excludes overlong forms, and up to \<open>9F\<close> after \<open>ED\<close>, which
  excludes surrogates); a lead byte \<open>F0..F4\<close> with three (the first from \<open>90\<close> after \<open>F0\<close>
  and up to \<open>8F\<close> after \<open>F4\<close>, which excludes code points above \<open>10FFFF\<close>).
\<close>

definition byte_in :: "nat \<Rightarrow> nat \<Rightarrow> char \<Rightarrow> bool" where
  "byte_in lo hi c = (lo \<le> of_char c \<and> of_char c \<le> hi)"

fun utf8_valid :: "string \<Rightarrow> bool" where
  "utf8_valid [] = True"
| "utf8_valid (a # rest) =
     (if byte_in 0x00 0x7F a then utf8_valid rest
      else if byte_in 0xC2 0xDF a then
        (case rest of
           c1 # r \<Rightarrow> byte_in 0x80 0xBF c1 \<and> utf8_valid r
         | _ \<Rightarrow> False)
      else if byte_in 0xE0 0xEF a then
        (case rest of
           c1 # c2 # r \<Rightarrow>
             byte_in (if a = CHR 0xE0 then 0xA0 else 0x80)
                     (if a = CHR 0xED then 0x9F else 0xBF) c1 \<and>
             byte_in 0x80 0xBF c2 \<and> utf8_valid r
         | _ \<Rightarrow> False)
      else if byte_in 0xF0 0xF4 a then
        (case rest of
           c1 # c2 # c3 # r \<Rightarrow>
             byte_in (if a = CHR 0xF0 then 0x90 else 0x80)
                     (if a = CHR 0xF4 then 0x8F else 0xBF) c1 \<and>
             byte_in 0x80 0xBF c2 \<and> byte_in 0x80 0xBF c3 \<and> utf8_valid r
         | _ \<Rightarrow> False)
      else False)"

definition str_from_utf8 :: "string \<Rightarrow> error + pyobj" where
  "str_from_utf8 s = (if utf8_valid s then Inr (PyStr s) else Inl UnicodeDecodeError)"

text \<open>
  \<open>obj[key] = value\<close> on a dict: the value of a key that is present is replaced in place, a
  new key goes to the end. \<open>from_json\<close> only inserts text keys, for which Python's equality
  of keys is the equality of the texts.
\<close>

definition dict_setitem ::
  "(pyobj \<times> pyobj) list \<Rightarrow> pyobj \<Rightarrow> pyobj \<Rightarrow> (pyobj \<times> pyobj) list" where
  "dict_setitem d k v = AList.update k v d"

text \<open>The capability checks: \<open>obj.ptr() == nullptr\<close>, \<open>obj.is_none()\<close> and \<open>py::isinstance<T>\<close>.\<close>

definition is_nullptr :: "pyobj \<Rightarrow> bool" where
  "is_nullptr obj = (case obj of NullHandle \<Rightarrow> True | _ \<Rightarrow> False)"

definition is_none :: "pyobj \<Rightarrow> bool" where
  "is_none obj = (case obj of PyNone \<Rightarrow> True | _ \<Rightarrow> False)"

definition isinstance_bool :: "pyobj \<Rightarrow> bool" where
  "isinstance_bool obj = (case obj of PyBool _ \<Rightarrow> True | _ \<Rightarrow> False)"

definition isinstance_int :: "pyobj \<Rightarrow> bool" where
  "isinstance_int obj = (case obj of PyInt _ \<Rightarrow> True | PyBool _ \<Rightarrow> True | _ \<Rightarrow> False)"

definition isinstance_float :: "pyobj \<Rightarrow> bool" where
  "isinstance_float obj = (case obj of PyFloat _ \<Rightarrow> True | _ \<Rightarrow> False)"

definition isinstance_bytes :: "pyobj \<Rightarrow> bool" where
  "isinstance_bytes obj = (case obj of PyBytes _ \<Rightarrow> True | _ \<Rightarrow> False)"

definition isinstance_str :: "pyobj \<Rightarrow> bool" where
  "isinstance_str obj = (case obj of PyStr _ \<Rightarrow> True | PyStrLone _ \<Rightarrow> True | _ \<Rightarrow> False)"

definition isinstance_tuple :: "pyobj \<Rightarrow> bool" where
  "isinstance_tuple obj = (case obj of PyTuple _ \<Rightarrow> True | _ \<Rightarrow> False)"

definition isinstance_list :: "pyobj \<Rightarrow> bool" where
  "isinstance_list obj = (case obj of PyList _ \<Rightarrow> True | _ \<Rightarrow> False)"

definition isinstance_dict :: "pyobj \<Rightarrow> bool" where
  "isinstance_dict obj = (case obj of PyDict _ \<Rightarrow> True | _ \<Rightarrow> False)"

text \<open>
  The casts \<open>obj.cast<T>()\<close>. A cast that throws \<open>py::cast_error\<close> is \<open>None\<close>: the integer
  casts throw when the value does not fit the 64-bit target, the string cast throws on a
  text without UTF-8 encoding. An instance of \<open>int\<close> has an integer value (\<open>int_value\<close>),
  \<open>True\<close> and \<open>False\<close> counting as 1 and 0.
\<close>

definition int_value :: "pyobj \<Rightarrow> int option" where
  "int_value obj =
     (case obj of PyInt i \<Rightarrow> Some i | PyBool b \<Rightarrow> Some (if b then 1 else 0) | _ \<Rightarrow> None)"

definition cast_bool :: "pyobj \<Rightarrow> bool option" where
  "cast_bool obj = (case obj of PyBool b \<Rightarrow> Some b | _ \<Rightarrow> None)"

definition cast_int64 :: "pyobj \<Rightarrow> number_integer_t option" where
  "cast_int64 obj =
     (case int_value obj of
        Some i \<Rightarrow> if - (2 ^ 63) \<le> i \<and> i < 2 ^ 63 then Some (word_of_int i) else None
      | None \<Rightarrow> None)"

definition cast_uint64 :: "pyobj \<Rightarrow> number_unsigned_t option" where
  "cast_uint64 obj =
     (case int_value obj of
        Some i \<Rightarrow> if 0 \<le> i \<and> i < 2 ^ 64 then Some (word_of_int i) else None
      | None \<Rightarrow> None)"

definition cast_double :: "pyobj \<Rightarrow> double option" where
  "cast_double obj = (case obj of PyFloat d \<Rightarrow> Some d | _ \<Rightarrow> None)"

definition cast_string :: "pyobj \<Rightarrow> string option" where
  "cast_string obj = (case obj of PyStr s \<Rightarrow> Some s | PyBytes b \<Rightarrow> Some b | _ \<Rightarrow> None)"

text \<open>\<open>py::int_(i).equal(obj)\<close>: Python's \<open>==\<close> between the integer \<open>i\<close> and \<open>obj\<close>.\<close>

definition int_equal :: "int \<Rightarrow> pyobj \<Rightarrow> bool" where
  "int_equal i obj = (int_value obj = Some i)"

text \<open>The decimal text of an integer, which is both its \<open>repr\<close> and its \<open>str\<close>.\<close>

definition digit_char :: "nat \<Rightarrow> char" where
  "digit_char d = ''0123456789'' ! d"

function nat_str :: "nat \<Rightarrow> string" where
  "nat_str n = (if n < 10 then [digit_char n] else nat_str (n div 10) @ [digit_char (n mod 10)])"
  by pat_completeness auto
termination
  by (relation "measure id") auto

declare nat_str.simps [simp del]

definition int_str :: "int \<Rightarrow> string" where
  "int_str i = (if i < 0 then CHR ''-'' # nat_str (nat (- i)) else nat_str (nat i))"

text \<open>
  The runtime refuses to convert an integer to decimal text when it has more digits than
  \<open>sys.get_int_max_str_digits()\<close>, and raises \<open>ValueError\<close>. The limit is taken at its
  default, 4300 digits (CPython 3.11 and later); the sign does not count as a digit.
  \<open>int_text i\<close> is \<open>None\<close> when the conversion raises.
\<close>

definition int_max_str_digits :: nat where
  "int_max_str_digits = 4300"

definition int_digits :: "int \<Rightarrow> nat" where
  "int_digits i = length (nat_str (nat \<bar>i\<bar>))"

definition int_text :: "int \<Rightarrow> string option" where
  "int_text i = (if int_max_str_digits < int_digits i then None else Some (int_str i))"

text \<open>
  \<open>py::repr(obj).cast<std::string>()\<close>, which \<open>to_json\<close> calls on an integer out of range
  and on an object of an unsupported type; on the other kinds it is not called. It is
  \<open>None\<close> when \<open>repr\<close> raises.
\<close>

definition py_repr :: "pyobj \<Rightarrow> string option" where
  "py_repr obj =
     (case obj of
        PyInt i \<Rightarrow> int_text i
      | PyBool b \<Rightarrow> Some (if b then ''True'' else ''False'')
      | PyNone \<Rightarrow> Some ''None''
      | PyOther r \<Rightarrow> Some r
      | _ \<Rightarrow> Some [])"

text \<open>
  \<open>py::str(key)\<close>, the text object that \<open>str()\<close> makes of a dict key; \<open>None\<close> when \<open>str()\<close>
  raises, as it does on an integer with too many digits. The text of a text object is the
  object itself; integers, booleans and \<open>None\<close> have the text Python prints. For the
  remaining kinds (floats, bytes, tuples and other objects) the text is what the runtime's
  \<open>str()\<close> returns, taken as the parameter \<open>S\<close>.
\<close>

definition py_str_object :: "(pyobj \<Rightarrow> string) \<Rightarrow> pyobj \<Rightarrow> pyobj option" where
  "py_str_object S key =
     (case key of
        PyStr s \<Rightarrow> Some key
      | PyStrLone cps \<Rightarrow> Some key
      | PyInt i \<Rightarrow> map_option PyStr (int_text i)
      | PyBool b \<Rightarrow> Some (PyStr (if b then ''True'' else ''False''))
      | PyNone \<Rightarrow> Some (PyStr ''None'')
      | _ \<Rightarrow> Some (PyStr (S key)))"

text \<open>
  \<open>py::str(key).cast<std::string>()\<close>, the text of a dict key as a \<open>std::string\<close>: \<open>None\<close>
  when \<open>str()\<close> raises or when the cast throws (a text without UTF-8 encoding).
\<close>

definition py_str :: "(pyobj \<Rightarrow> string) \<Rightarrow> pyobj \<Rightarrow> string option" where
  "py_str S key = (case py_str_object S key of None \<Rightarrow> None | Some t \<Rightarrow> cast_string t)"

text \<open>
  \<open>base64.b64encode\<close> of the Python standard library: RFC 4648 base64 with padding. Three
  bytes make a 24-bit number that is cut into four 6-bit digits; one or two remaining bytes
  are filled up with zero bits and give two or three digits followed by \<open>=\<close>.
\<close>

definition b64_alphabet :: string where
  "b64_alphabet = ''ABCDEFGHIJKLMNOPQRSTUVWXYZabcdefghijklmnopqrstuvwxyz0123456789+/''"

definition b64_char :: "nat \<Rightarrow> char" where
  "b64_char n = b64_alphabet ! (n mod 64)"

fun b64encode :: "string \<Rightarrow> string" where
  "b64encode [] = []"
| "b64encode [a] =
     (let n = of_char a * 65536
      in [b64_char (n div 262144), b64_char (n div 4096), CHR ''='', CHR ''=''])"
| "b64encode [a, b] =
     (let n = of_char a * 65536 + of_char b * 256
      in [b64_char (n div 262144), b64_char (n div 4096), b64_char (n div 64), CHR ''=''])"
| "b64encode (a # b # c # rest) =
     (let n = of_char a * 65536 + of_char b * 256 + of_char c
      in [b64_char (n div 262144), b64_char (n div 4096), b64_char (n div 64), b64_char n]
         @ b64encode rest)"

definition bytes_data :: "pyobj \<Rightarrow> string" where
  "bytes_data obj = (case obj of PyBytes b \<Rightarrow> b | _ \<Rightarrow> [])"

definition seq_items :: "pyobj \<Rightarrow> pyobj list" where
  "seq_items obj = (case obj of PyTuple xs \<Rightarrow> xs | PyList xs \<Rightarrow> xs | _ \<Rightarrow> [])"

definition dict_items :: "pyobj \<Rightarrow> (pyobj \<times> pyobj) list" where
  "dict_items obj = (case obj of PyDict kvs \<Rightarrow> kvs | _ \<Rightarrow> [])"

subsection \<open>\<open>from_json\<close>\<close>

text \<open>
  The chain of type queries of the source, in its order. The two loops build the list and
  the dict in an accumulator \<open>obj\<close>, as the source does with \<open>append\<close> and \<open>obj[key] = ...\<close>.
  The one exception on the way is that of \<open>py::str\<close> on a string or a key that is not
  well-formed UTF-8; it leaves the function at once. In
  \<open>obj[py::str(it.key())] = from_json(it.value())\<close> the right-hand side is evaluated first.
  Allocation of a Python object is taken to succeed.
\<close>

lemma array_items_size: "is_array j \<Longrightarrow> size_list size (array_items j) < size j"
  by (cases j) (simp_all add: is_array_def array_items_def)

lemma object_items_size:
  "\<not> is_null j \<Longrightarrow> \<not> is_boolean j \<Longrightarrow> \<not> is_number_integer j \<Longrightarrow> \<not> is_number_float j \<Longrightarrow>
   \<not> is_string j \<Longrightarrow> \<not> is_array j \<Longrightarrow>
   size_list (size_prod (\<lambda>_. 0) size) (object_items j) < size j"
  by (cases j)
    (simp_all add: is_null_def is_boolean_def is_number_integer_def is_number_float_def
      is_string_def is_array_def object_items_def)

function from_json :: "json \<Rightarrow> error + pyobj"
  and from_json_array :: "json list \<Rightarrow> pyobj list \<Rightarrow> error + pyobj list"
  and from_json_object ::
    "(string \<times> json) list \<Rightarrow> (pyobj \<times> pyobj) list \<Rightarrow> error + (pyobj \<times> pyobj) list"
where
  "from_json j =
     (if is_null j then Inr PyNone
      else if is_boolean j then Inr (PyBool (get_bool j))
      else if is_number_integer j then Inr (PyInt (sint (get_number_integer j)))
      else if is_number_unsigned j then Inr (PyInt (uint (get_number_unsigned j)))
      else if is_number_float j then Inr (PyFloat (get_double j))
      else if is_string j then str_from_utf8 (get_string j)
      else if is_array j then
        (case from_json_array (array_items j) [] of
           Inl e \<Rightarrow> Inl e
         | Inr obj \<Rightarrow> Inr (PyList obj))
      else
        (case from_json_object (object_items j) [] of
           Inl e \<Rightarrow> Inl e
         | Inr obj \<Rightarrow> Inr (PyDict obj)))"
| "from_json_array [] obj = Inr obj"
| "from_json_array (el # els) obj =
     (case from_json el of
        Inl e \<Rightarrow> Inl e
      | Inr x \<Rightarrow> from_json_array els (obj @ [x]))"
| "from_json_object [] obj = Inr obj"
| "from_json_object ((key, val) # rest) obj =
     (case from_json val of
        Inl e \<Rightarrow> Inl e
      | Inr x \<Rightarrow>
          (case str_from_utf8 key of
             Inl e \<Rightarrow> Inl e
           | Inr k \<Rightarrow> from_json_object rest (dict_setitem obj k x)))"
  by pat_completeness auto
termination
  apply (relation "measure (\<lambda>x. case x of
        Inl j \<Rightarrow> size j
      | Inr (Inl (els, _)) \<Rightarrow> size_list size els
      | Inr (Inr (kvs, _)) \<Rightarrow> size_list (size_prod (\<lambda>_. 0) size) kvs)")
  apply (auto simp: array_items_size object_items_size)
  done

subsection \<open>\<open>to_json\<close>\<close>

text \<open>
  The integer branch: each \<open>try\<close> block casts, converts back with \<open>py::int_\<close> and compares
  with the object; a cast that throws is swallowed by \<open>catch (...)\<close>. The message of the
  \<open>runtime_error\<close> is built from \<open>py::repr(obj)\<close> before the \<open>throw\<close>: when \<open>repr\<close> raises,
  its \<open>ValueError\<close> leaves the function instead.
\<close>

definition to_json_int :: "pyobj \<Rightarrow> error + json" where
  "to_json_int obj =
     (case (case cast_int64 obj of
              Some s \<Rightarrow> if int_equal (sint s) obj then Some s else None
            | None \<Rightarrow> None) of
        Some s \<Rightarrow> Inr (NumberInteger s)
      | None \<Rightarrow>
          (case (case cast_uint64 obj of
                   Some u \<Rightarrow> if int_equal (uint u) obj then Some u else None
                 | None \<Rightarrow> None) of
             Some u \<Rightarrow> Inr (NumberUnsigned u)
           | None \<Rightarrow>
               (case py_repr obj of
                  None \<Rightarrow> Inl ValueError
                | Some r \<Rightarrow>
                    Inl (IntegerOutOfRange
                      (''to_json received an integer out of range for both '' @
                       ''json::number_integer_t and json::number_unsigned_t type: '' @ r)))))"

lemma seq_items_size:
  "isinstance_tuple obj \<or> isinstance_list obj \<Longrightarrow> size_list size (seq_items obj) < size obj"
  by (cases obj) (simp_all add: isinstance_tuple_def isinstance_list_def seq_items_def)

lemma dict_items_size:
  "isinstance_dict obj \<Longrightarrow> size_list (size_prod size size) (dict_items obj) < size obj"
  by (cases obj) (simp_all add: isinstance_dict_def dict_items_def)

text \<open>
  The chain of capability checks of the source, in its order; an exception leaves the
  function at once, also from inside a loop. The base64 text is ASCII, so its decoding and
  its cast to \<open>std::string\<close> cannot fail. In \<open>out[py::str(key)...] = to_json(obj[key])\<close> the
  right-hand side is evaluated first; on the left, \<open>py::str(key)\<close> can raise and the cast of
  its result can throw.
\<close>

function to_json :: "(pyobj \<Rightarrow> string) \<Rightarrow> pyobj \<Rightarrow> error + json"
  and to_json_seq :: "(pyobj \<Rightarrow> string) \<Rightarrow> pyobj list \<Rightarrow> json list \<Rightarrow> error + json list"
  and to_json_dict ::
    "(pyobj \<Rightarrow> string) \<Rightarrow> (pyobj \<times> pyobj) list \<Rightarrow> (string \<times> json) list
      \<Rightarrow> error + (string \<times> json) list"
where
  "to_json S obj =
     (if is_nullptr obj \<or> is_none obj then Inr Null
      else if isinstance_bool obj then
        (case cast_bool obj of Some b \<Rightarrow> Inr (Boolean b) | None \<Rightarrow> Inl CastError)
      else if isinstance_int obj then to_json_int obj
      else if isinstance_float obj then
        (case cast_double obj of Some d \<Rightarrow> Inr (NumberFloat d) | None \<Rightarrow> Inl CastError)
      else if isinstance_bytes obj then Inr (String (b64encode (bytes_data obj)))
      else if isinstance_str obj then
        (case cast_string obj of Some s \<Rightarrow> Inr (String s) | None \<Rightarrow> Inl CastError)
      else if isinstance_tuple obj \<or> isinstance_list obj then
        (case to_json_seq S (seq_items obj) [] of
           Inl e \<Rightarrow> Inl e
         | Inr out \<Rightarrow> Inr (Array out))
      else if isinstance_dict obj then
        (case to_json_dict S (dict_items obj) [] of
           Inl e \<Rightarrow> Inl e
         | Inr out \<Rightarrow> Inr (Object out))
      else
        (case py_repr obj of
           None \<Rightarrow> Inl ValueError
         | Some r \<Rightarrow>
             Inl (UnsupportedType (''to_json not implemented for this type of object: '' @ r))))"
| "to_json_seq S [] out = Inr out"
| "to_json_seq S (value # rest) out =
     (case to_json S value of
        Inl e \<Rightarrow> Inl e
      | Inr j \<Rightarrow> to_json_seq S rest (out @ [j]))"
| "to_json_dict S [] out = Inr out"
| "to_json_dict S ((key, val) # rest) out =
     (case to_json S val of
        Inl e \<Rightarrow> Inl e
      | Inr j \<Rightarrow>
          (case py_str_object S key of
             None \<Rightarrow> Inl ValueError
           | Some t \<Rightarrow>
               (case cast_string t of
                  None \<Rightarrow> Inl CastError
                | Some k \<Rightarrow> to_json_dict S rest (object_setitem out k j))))"
  by pat_completeness auto
termination
  apply (relation "measure (\<lambda>x. case x of
        Inl (_, obj) \<Rightarrow> size obj
      | Inr (Inl (_, xs, _)) \<Rightarrow> size_list size xs
      | Inr (Inr (_, kvs, _)) \<Rightarrow> size_list (size_prod size size) kvs)")
  apply (auto simp: seq_items_size dict_items_size)
  done

section \<open>The docstring patcher\<close>

subsection \<open>Targets\<close>

text \<open>
  The structures of the Python runtime that hold a docstring, with the fields that
  \<open>vineyard_add_doc\<close> reads and writes. A \<open>char*\<close> slot is \<open>None\<close> when it is the null
  pointer and otherwise holds the C string it points to (the bytes before the terminating
  \<open>NUL\<close>).
\<close>

record PyMethodDef =
  ml_name :: string
  ml_doc :: "string option"

record PyGetSetDef =
  name :: string
  doc :: "string option"

record PyTypeObject =
  tp_name :: string
  tp_doc :: "string option"

text \<open>
  An object of any other type is seen through its attribute \<open>__doc__\<close> only: \<open>doc_attr\<close> is
  what \<open>PyObject_GetAttrString\<close> returns (\<open>None\<close> for \<open>NULL\<close>), \<open>attr_settable\<close> tells whether
  \<open>PyObject_SetAttrString\<close> on \<open>__doc__\<close> succeeds.
\<close>

record generic_object =
  doc_attr :: "pyobj option"
  attr_settable :: bool

text \<open>
  The first argument of \<open>vineyard_add_doc\<close> by its dynamic type, in the order in which the
  source tests for it: a \<open>PyCFunction_Type\<close> object with the method definition \<open>m_ml\<close>
  points to; a \<open>PyInstanceMethod_Type\<close> object with the method definition of the function it
  wraps; an object of the type named \<open>method_descriptor\<close> with its \<open>d_method\<close>; an object of
  the type named \<open>getset_descriptor\<close> with its \<open>d_getset\<close>; a \<open>PyType_Type\<close> object; any other
  object.
\<close>

datatype target =
    CFunction PyMethodDef
  | InstanceMethod PyMethodDef
  | MethodDescr PyMethodDef
  | GetSetDescr PyGetSetDef
  | TypeObject PyTypeObject
  | OtherObject generic_object

text \<open>
  The failures of \<open>vineyard_add_doc\<close> under the names of the specification:
  \<open>InvalidText\<close> is the \<open>RuntimeError\<close> ``error unpacking string as utf-8'',
  \<open>AlreadyDocumented\<close> the \<open>RuntimeError\<close> ``... already has a docstring'' with its message,
  \<open>AttributeNotSettable\<close> the \<open>TypeError\<close> ``Cannot set a docstring for that object''.
  \<open>SystemError\<close> is what the interpreter raises when a function returns a result while an
  exception is still set.
\<close>

datatype doc_error =
    InvalidText
  | AlreadyDocumented string
  | AttributeNotSettable
  | SystemError

subsection \<open>The C API calls\<close>

definition PyBytes_Check :: "pyobj \<Rightarrow> bool" where
  "PyBytes_Check obj = (case obj of PyBytes _ \<Rightarrow> True | _ \<Rightarrow> False)"

definition PyUnicode_Check :: "pyobj \<Rightarrow> bool" where
  "PyUnicode_Check obj = (case obj of PyStr _ \<Rightarrow> True | PyStrLone _ \<Rightarrow> True | _ \<Rightarrow> False)"

definition PyBytes_GET_SIZE :: "pyobj \<Rightarrow> nat" where
  "PyBytes_GET_SIZE obj = length (bytes_data obj)"

definition PyBytes_AS_STRING :: "pyobj \<Rightarrow> string" where
  "PyBytes_AS_STRING obj = bytes_data obj"

text \<open>
  \<open>PyUnicode_AsUTF8AndSize\<close> returns the UTF-8 encoding of a text object and its length in
  bytes, or \<open>NULL\<close> (here \<open>None\<close>) when the text cannot be encoded.
\<close>

definition PyUnicode_AsUTF8AndSize :: "pyobj \<Rightarrow> (string \<times> nat) option" where
  "PyUnicode_AsUTF8AndSize obj = (case obj of PyStr s \<Rightarrow> Some (s, length s) | _ \<Rightarrow> None)"

text \<open>
  \<open>PyUnicode_GET_LENGTH\<close> counts code points: in a UTF-8 text these are the bytes that are
  not continuation bytes (\<open>10xxxxxx\<close>).
\<close>

definition PyUnicode_GET_LENGTH :: "pyobj \<Rightarrow> nat" where
  "PyUnicode_GET_LENGTH obj =
     (case obj of
        PyStr s \<Rightarrow> length (filter (\<lambda>c. (of_char c :: nat) div 64 \<noteq> 2) s)
      | PyStrLone cps \<Rightarrow> length cps
      | _ \<Rightarrow> 0)"

text \<open>\<open>strndup(s, n)\<close> copies at most \<open>n\<close> bytes and stops at the first \<open>NUL\<close>.\<close>

definition strndup :: "string \<Rightarrow> nat \<Rightarrow> string" where
  "strndup s n = takeWhile (\<lambda>c. c \<noteq> CHR 0x00) (take n s)"

text \<open>The test \<open>p && p[0]\<close> on a \<open>char*\<close> slot.\<close>

definition has_doc :: "string option \<Rightarrow> bool" where
  "has_doc d = (case d of None \<Rightarrow> False | Some s \<Rightarrow> s \<noteq> [])"

text \<open>A name between single quotes, as \<open>'%s'\<close> prints it.\<close>

definition quoted :: "string \<Rightarrow> string" where
  "quoted s = [CHR 0x27] @ s @ [CHR 0x27]"

subsection \<open>\<open>vineyard_add_doc\<close>\<close>

text \<open>
  The first part of the function reads the docstring argument into \<open>doc_str\<close> and
  \<open>doc_len\<close>: the placeholder \<open><invalid string>\<close> to begin with, the bytes of a \<open>bytes\<close>
  object, the UTF-8 encoding of a text object; only a failing UTF-8 conversion is an error.
\<close>

definition unpack_doc :: "pyobj \<Rightarrow> doc_error + string \<times> nat" where
  "unpack_doc doc_obj =
     (let (doc_str, doc_len) = (''<invalid string>'', length ''<invalid string>'');
          (doc_str, doc_len) =
            (if PyBytes_Check doc_obj then (PyBytes_AS_STRING doc_obj, PyBytes_GET_SIZE doc_obj)
             else (doc_str, doc_len))
      in if PyUnicode_Check doc_obj then
           (case PyUnicode_AsUTF8AndSize doc_obj of
              None \<Rightarrow> Inl InvalidText
            | Some (s, n) \<Rightarrow> Inr (s, n))
         else Inr (doc_str, doc_len))"

text \<open>
  The function is modelled on its two arguments (the argument tuple has been taken apart,
  so the arity check of \<open>PyArg_ParseTuple\<close> has passed). It mutates the target in place;
  the model returns the outcome of the call together with the target as it is after the
  call. Allocation by \<open>strndup\<close> is taken to succeed.

  In the last branch, \<open>PyObject_GetAttrString\<close> that returns \<open>NULL\<close> leaves its
  \<open>AttributeError\<close> set, and the source goes on without \<open>PyErr_Clear\<close>. When the attribute
  can then be assigned, the function returns \<open>None\<close> with that exception still set, and the
  call ends in \<open>SystemError\<close> although \<open>__doc__\<close> has been written. When it cannot,
  \<open>PyErr_Format\<close> replaces the exception by the \<open>TypeError\<close>.
\<close>

definition vineyard_add_doc :: "target \<Rightarrow> pyobj \<Rightarrow> (doc_error + unit) \<times> target" where
  "vineyard_add_doc obj doc_obj =
     (case unpack_doc doc_obj of
        Inl e \<Rightarrow> (Inl e, obj)
      | Inr (doc_str, doc_len) \<Rightarrow>
          (case obj of
             CFunction m \<Rightarrow>
               if has_doc (ml_doc m) then
                 (Inl (AlreadyDocumented
                    (''function '' @ quoted (ml_name m) @ '' already has a docstring'')), obj)
               else (Inr (), CFunction (m\<lparr>ml_doc := Some (strndup doc_str doc_len)\<rparr>))
           | InstanceMethod m \<Rightarrow>
               if has_doc (ml_doc m) then
                 (Inl (AlreadyDocumented
                    (''function '' @ quoted (ml_name m) @ '' already has a docstring'')), obj)
               else (Inr (), InstanceMethod (m\<lparr>ml_doc := Some (strndup doc_str doc_len)\<rparr>))
           | MethodDescr m \<Rightarrow>
               if has_doc (ml_doc m) then
                 (Inl (AlreadyDocumented
                    (''method '' @ quoted (ml_name m) @ '' already has a docstring'')), obj)
               else (Inr (), MethodDescr (m\<lparr>ml_doc := Some (strndup doc_str doc_len)\<rparr>))
           | GetSetDescr g \<Rightarrow>
               if has_doc (doc g) then
                 (Inl (AlreadyDocumented
                    (''attribute '' @ quoted (name g) @ '' already has a docstring'')), obj)
               else (Inr (), GetSetDescr (g\<lparr>doc := Some (strndup doc_str doc_len)\<rparr>))
           | TypeObject t \<Rightarrow>
               if has_doc (tp_doc t) then
                 (Inl (AlreadyDocumented
                    (''Type '' @ quoted (tp_name t) @ '' already has a docstring'')), obj)
               else (Inr (), TypeObject (t\<lparr>tp_doc := Some (strndup doc_str doc_len)\<rparr>))
           | OtherObject x \<Rightarrow>
               if (case doc_attr x of
                     None \<Rightarrow> False
                   | Some a \<Rightarrow>
                       \<not> is_none a \<and>
                       ((PyBytes_Check a \<and> PyBytes_GET_SIZE a > 0) \<or>
                        (PyUnicode_Check a \<and> PyUnicode_GET_LENGTH a > 0)))
               then (Inl (AlreadyDocumented ''Object already has a docstring''), obj)
               else if attr_settable x then
                 (if doc_attr x = None then Inl SystemError else Inr (),
                  OtherObject (x\<lparr>doc_attr := Some doc_obj\<rparr>))
               else (Inl AttributeNotSettable, obj)))"

subsection \<open>Notions of the specification\<close>

text \<open>
  \<open>known_kind\<close>: the target is of one of the five kinds with a slot of their own.
  \<open>documentable\<close>: a documentable target in the sense of the specification, that is, of a
  known kind or an object whose \<open>__doc__\<close> can be assigned.
  \<open>doc_slot\<close>: the text that the documentation slot of the target reads.
  \<open>slot_empty\<close>: the slot is absent or holds the empty string.
\<close>

definition known_kind :: "target \<Rightarrow> bool" where
  "known_kind t = (case t of OtherObject x \<Rightarrow> False | _ \<Rightarrow> True)"

definition documentable :: "target \<Rightarrow> bool" where
  "documentable t = (case t of OtherObject x \<Rightarrow> attr_settable x | _ \<Rightarrow> True)"

definition doc_slot :: "target \<Rightarrow> string option" where
  "doc_slot t =
     (case t of
        CFunction m \<Rightarrow> ml_doc m
      | InstanceMethod m \<Rightarrow> ml_doc m
      | MethodDescr m \<Rightarrow> ml_doc m
      | GetSetDescr g \<Rightarrow> doc g
      | TypeObject ty \<Rightarrow> tp_doc ty
      | OtherObject x \<Rightarrow>
          (case doc_attr x of
             Some (PyStr s) \<Rightarrow> Some s
           | Some (PyBytes b) \<Rightarrow> Some b
           | _ \<Rightarrow> None))"

definition slot_empty :: "target \<Rightarrow> bool" where
  "slot_empty t =
     (case t of
        OtherObject x \<Rightarrow>
          doc_attr x = None \<or> doc_attr x = Some PyNone \<or>
          doc_attr x = Some (PyStr []) \<or> doc_attr x = Some (PyBytes [])
      | _ \<Rightarrow> doc_slot t = None \<or> doc_slot t = Some [])"

text \<open>
  \<open>doc_attr_present\<close>: reading the documentation of the target does not fail, that is, the
  target is not an object of the last kind whose attribute \<open>__doc__\<close> cannot be read.
\<close>

definition doc_attr_present :: "target \<Rightarrow> bool" where
  "doc_attr_present t = (case t of OtherObject x \<Rightarrow> doc_attr x \<noteq> None | _ \<Rightarrow> True)"

text \<open>
  The specification's reading of a payload that can be interpreted as valid text, in its
  words ``accept either raw bytes or text'': a \<open>bytes\<close> object, or a text object that has a
  UTF-8 encoding.
\<close>

definition spec_interpretable_as_text :: "pyobj \<Rightarrow> bool" where
  "spec_interpretable_as_text d =
     (PyBytes_Check d \<or> (PyUnicode_Check d \<and> PyUnicode_AsUTF8AndSize d \<noteq> None))"

subsection \<open>The domain of the round trip\<close>

text \<open>
  \<open>no_unsigned v\<close>: \<open>v\<close> is built from \<open>Null\<close>, \<open>Boolean\<close>, \<open>NumberInteger\<close>, \<open>NumberFloat\<close>,
  \<open>String\<close>, \<open>Array\<close> and \<open>Object\<close> only. \<open>keys_distinct v\<close>: in every object inside \<open>v\<close> the
  keys are pairwise distinct, which is the invariant of the object container.
  \<open>utf8_strings v\<close>: every string and every object key inside \<open>v\<close> is well-formed UTF-8.
\<close>

fun no_unsigned :: "json \<Rightarrow> bool" where
  "no_unsigned (NumberUnsigned u) = False"
| "no_unsigned (Array els) = (\<forall>el \<in> set els. no_unsigned el)"
| "no_unsigned (Object kvs) = (\<forall>kv \<in> set kvs. no_unsigned (snd kv))"
| "no_unsigned _ = True"

fun keys_distinct :: "json \<Rightarrow> bool" where
  "keys_distinct (Array els) = (\<forall>el \<in> set els. keys_distinct el)"
| "keys_distinct (Object kvs) =
     (distinct (map fst kvs) \<and> (\<forall>kv \<in> set kvs. keys_distinct (snd kv)))"
| "keys_distinct _ = True"

fun utf8_strings :: "json \<Rightarrow> bool" where
  "utf8_strings (String s) = utf8_valid s"
| "utf8_strings (Array els) = (\<forall>el \<in> set els. utf8_strings el)"
| "utf8_strings (Object kvs) =
     (\<forall>kv \<in> set kvs. utf8_valid (fst kv) \<and> utf8_strings (snd kv))"
| "utf8_strings _ = True"

section \<open>Properties of the value bridge\<close>

subsection \<open>Auxiliary facts\<close>

lemmas kind_defs =
  is_nullptr_def is_none_def isinstance_bool_def isinstance_int_def isinstance_float_def
  isinstance_bytes_def isinstance_str_def isinstance_tuple_def isinstance_list_def
  isinstance_dict_def

lemmas json_kind_defs =
  is_null_def is_boolean_def is_number_integer_def is_number_unsigned_def is_number_float_def
  is_string_def is_array_def

lemmas int_text_defs =
  int_text_def int_digits_def int_max_str_digits_def int_str_def nat_str.simps digit_char_def

lemma sint_int64:
  "- (2 ^ 63) \<le> i \<Longrightarrow> i < 2 ^ 63 \<Longrightarrow> sint (word_of_int i :: 64 word) = i"
  by (simp add: int_word_sint)

lemma uint_int64:
  "0 \<le> i \<Longrightarrow> i < 2 ^ 64 \<Longrightarrow> uint (word_of_int i :: 64 word) = i"
  by (simp add: uint_word_of_int)

lemma mod_once: "m \<le> x \<Longrightarrow> x < 2 * m \<Longrightarrow> (x :: int) mod m = x - m"
proof -
  assume a: "m \<le> x" "x < 2 * m"
  have "x mod m = (x - m) mod m" by simp
  also have "\<dots> = x - m" using a by (intro mod_pos_pos_trivial) auto
  finally show ?thesis .
qed

lemma sint_high:
  assumes "2 ^ 63 \<le> uint (u :: 64 word)"
  shows "sint u = uint u - 2 ^ 64"
proof -
  have b: "uint u < 2 ^ 64" using uint_lt2p [of u] by simp
  have "sint (word_of_int (uint u) :: 64 word) = (uint u + 2 ^ 63) mod 2 ^ 64 - 2 ^ 63"
    by (simp only: int_word_sint) simp
  moreover have "(uint u + 2 ^ 63) mod 2 ^ 64 = uint u + 2 ^ 63 - 2 ^ 64"
    using assms b by (intro mod_once) auto
  ultimately show ?thesis by simp
qed

text \<open>
  Well-formed and ill-formed byte sequences: ASCII, two, three and four byte forms; a
  stray byte \<open>FF\<close>, an overlong form, a surrogate, a code point above \<open>10FFFF\<close>, a
  truncated form.
\<close>

lemma utf8_valid_examples:
  "utf8_valid ''hello''"
  "utf8_valid [CHR 0xC3, CHR 0xA9]"
  "utf8_valid [CHR 0xE2, CHR 0x82, CHR 0xAC]"
  "utf8_valid [CHR 0xF0, CHR 0x90, CHR 0x8D, CHR 0x88]"
  "\<not> utf8_valid [CHR 0xFF]"
  "\<not> utf8_valid [CHR 0xC0, CHR 0x80]"
  "\<not> utf8_valid [CHR 0xED, CHR 0xA0, CHR 0x80]"
  "\<not> utf8_valid [CHR 0xF4, CHR 0x90, CHR 0x80, CHR 0x80]"
  "\<not> utf8_valid [CHR 0xE2, CHR 0x82]"
  by (simp_all add: byte_in_def)

text \<open>
  The two chains of checks, read off per kind of input. The defining equations of
  \<open>from_json\<close> and \<open>to_json\<close> are taken out of the simplifier in favour of these.
\<close>

lemma from_json_simps [simp]:
  "from_json Null = Inr PyNone"
  "from_json (Boolean b) = Inr (PyBool b)"
  "from_json (NumberInteger s) = Inr (PyInt (sint s))"
  "from_json (NumberUnsigned u) = Inr (PyInt (sint u))"
  "from_json (NumberFloat d) = Inr (PyFloat d)"
  "from_json (String t) = str_from_utf8 t"
  "from_json (Array els) =
     (case from_json_array els [] of Inl e \<Rightarrow> Inl e | Inr obj \<Rightarrow> Inr (PyList obj))"
  "from_json (Object kvs) =
     (case from_json_object kvs [] of Inl e \<Rightarrow> Inl e | Inr obj \<Rightarrow> Inr (PyDict obj))"
  by (simp_all add: json_kind_defs get_bool_def get_number_integer_def get_double_def
      get_string_def array_items_def object_items_def)

lemma to_json_simps [simp]:
  "to_json S NullHandle = Inr Null"
  "to_json S PyNone = Inr Null"
  "to_json S (PyBool b) = Inr (Boolean b)"
  "to_json S (PyFloat d) = Inr (NumberFloat d)"
  "to_json S (PyBytes bs) = Inr (String (b64encode bs))"
  "to_json S (PyStr t) = Inr (String t)"
  "to_json S (PyStrLone cps) = Inl CastError"
  "to_json S (PyTuple xs) =
     (case to_json_seq S xs [] of Inl e \<Rightarrow> Inl e | Inr out \<Rightarrow> Inr (Array out))"
  "to_json S (PyList xs) =
     (case to_json_seq S xs [] of Inl e \<Rightarrow> Inl e | Inr out \<Rightarrow> Inr (Array out))"
  "to_json S (PyDict kvs) =
     (case to_json_dict S kvs [] of Inl e \<Rightarrow> Inl e | Inr out \<Rightarrow> Inr (Object out))"
  "to_json S (PyOther r) =
     Inl (UnsupportedType (''to_json not implemented for this type of object: '' @ r))"
  by (simp_all add: kind_defs cast_bool_def cast_double_def cast_string_def bytes_data_def
      seq_items_def dict_items_def py_repr_def)

text \<open>What \<open>to_json\<close> returns on an integer, by the range the integer lies in.\<close>

lemma to_json_PyInt:
  "to_json S (PyInt i) =
     (if - (2 ^ 63) \<le> i \<and> i < 2 ^ 63 then Inr (NumberInteger (word_of_int i))
      else if 0 \<le> i \<and> i < 2 ^ 64 then Inr (NumberUnsigned (word_of_int i))
      else (case int_text i of
              None \<Rightarrow> Inl ValueError
            | Some r \<Rightarrow>
                Inl (IntegerOutOfRange
                  (''to_json received an integer out of range for both '' @
                   ''json::number_integer_t and json::number_unsigned_t type: '' @ r))))"
  by (simp add: kind_defs to_json_int_def cast_int64_def cast_uint64_def int_value_def
      int_equal_def py_repr_def sint_int64 uint_int64)

declare from_json.simps(1) [simp del]
declare to_json.simps(1) [simp del]

text \<open>
  An integer outside both ranges that has more digits than the runtime converts to text is
  refused with the \<open>ValueError\<close> of \<open>repr\<close>, not with \<open>IntegerOutOfRange\<close>.
\<close>

lemma to_json_PyInt_too_many_digits:
  "i < - (2 ^ 63) \<or> 2 ^ 64 \<le> i \<Longrightarrow> int_max_str_digits < int_digits i \<Longrightarrow>
   to_json S (PyInt i) = Inl ValueError"
  by (auto simp add: to_json_PyInt int_text_def)

lemma py_str_simps:
  "py_str S (PyStr t) = Some t"
  "py_str S (PyStrLone cps) = None"
  "py_str S (PyInt i) = int_text i"
  "py_str S (PyBool b) = Some (if b then ''True'' else ''False'')"
  "py_str S PyNone = Some ''None''"
  by (simp_all add: py_str_def py_str_object_def cast_string_def split: option.splits)

text \<open>The test vectors of RFC 4648, section 10.\<close>

lemma b64encode_rfc4648:
  "b64encode [] = []"
  "b64encode ''f'' = ''Zg==''"
  "b64encode ''fo'' = ''Zm8=''"
  "b64encode ''foo'' = ''Zm9v''"
  "b64encode ''foob'' = ''Zm9vYg==''"
  "b64encode ''fooba'' = ''Zm9vYmE=''"
  "b64encode ''foobar'' = ''Zm9vYmFy''"
  by (simp_all add: b64_char_def b64_alphabet_def)

subsection \<open>Integers\<close>



text \<open>
  Claim C5. \<open>from_json\<close> asks \<open>is_number_integer\<close> before \<open>is_number_unsigned\<close>, and the
  first query holds for every value for which the second holds, so the unsigned branch is
  never reached. An unsigned value above \<open>2^63 - 1\<close> is therefore read through the signed
  accessor and decoded to the integer \<open>u - 2^64\<close>, its two's-complement reading, and not to
  \<open>u\<close>, which the unsigned branch would have given.
\<close>

theorem from_json_unsigned_wraps:
  assumes "2 ^ 63 - 1 < uint u"
  shows "(\<forall>j. is_number_unsigned j \<longrightarrow> is_number_integer j) \<and>
         from_json (NumberUnsigned u) = Inr (PyInt (uint u - 2 ^ 64)) \<and>
         uint u - 2 ^ 64 = sint u \<and>
         from_json (NumberUnsigned u) \<noteq> Inr (PyInt (uint u))"
proof -
  have dead: "\<forall>j. is_number_unsigned j \<longrightarrow> is_number_integer j"
    by (simp add: json_kind_defs split: json.splits)
  from assms have "2 ^ 63 \<le> uint u" by simp
  then have "sint u = uint u - 2 ^ 64" by (rule sint_high)
  then have "from_json (NumberUnsigned u) = Inr (PyInt (uint u - 2 ^ 64)) \<and>
         uint u - 2 ^ 64 = sint u \<and>
         from_json (NumberUnsigned u) \<noteq> Inr (PyInt (uint u))"
    by simp
  with dead show ?thesis by blast
qed

theorem from_json_unsigned_wraps_witness:
  "from_json (NumberUnsigned (2 ^ 63)) = Inr (PyInt (- (2 ^ 63))) \<and>
   from_json (NumberUnsigned (2 ^ 63)) \<noteq> Inr (PyInt (2 ^ 63))"
  using from_json_unsigned_wraps [of "2 ^ 63"] by simp

subsection \<open>Order of the checks\<close>

text \<open>
  Claim C6. An instance of \<open>bool\<close> passes the \<open>int\<close> check as well; as the \<open>bool\<close> check
  comes first, every object that passes both checks is encoded as a \<open>Boolean\<close>, holding
  its truth value, and never as an integer.
\<close>

theorem to_json_bool_before_int:
  assumes "isinstance_bool obj" and "isinstance_int obj"
  shows "\<exists>b. obj = PyBool b \<and> to_json S obj = Inr (Boolean b)"
  using assms by (cases obj) (simp_all add: kind_defs)

theorem to_json_bool_before_int_witness:
  "isinstance_bool (PyBool True) \<and> isinstance_int (PyBool True) \<and>
   to_json (\<lambda>_. []) (PyBool True) = Inr (Boolean True)"
proof -
  have h1: "isinstance_bool (PyBool True)" by (simp add: isinstance_bool_def)
  have h2: "isinstance_int (PyBool True)" by (simp add: isinstance_int_def)
  from to_json_bool_before_int [OF h1 h2, of "\<lambda>_. []"] h1 h2 show ?thesis by simp
qed

subsection \<open>Bytes\<close>

text \<open>
  Claim C7. A byte sequence is encoded as the \<open>String\<close> that holds the base64 text of its
  bytes; the bytes \<open>FF 00 10\<close> give \<open>/wAQ\<close>.
\<close>

theorem to_json_bytes_base64:
  "to_json S (PyBytes bs) = Inr (String (b64encode bs)) \<and>
   to_json S (PyBytes [CHR 0xFF, CHR 0x00, CHR 0x10]) = Inr (String ''/wAQ'')"
  by (simp add: b64_char_def b64_alphabet_def)

theorem to_json_bytes_base64_witness:
  "to_json (\<lambda>_. []) (PyBytes ''hello'') = Inr (String ''aGVsbG8='')"
  using to_json_bytes_base64 [of "\<lambda>_. []" "''hello''"]
  by (simp add: b64_char_def b64_alphabet_def)

subsection \<open>Unsupported types\<close>



subsection \<open>Mapping keys\<close>

lemma dict_keys_acc:
  assumes "\<forall>kv \<in> set kvs. py_str S (fst kv) \<noteq> None \<and> (\<exists>j. to_json S (snd kv) = Inr j)"
    and "distinct (map fst out)"
  shows "\<exists>res. to_json_dict S kvs out = Inr res \<and> distinct (map fst res) \<and>
           fst ` set res = fst ` set out \<union> {k. \<exists>key \<in> fst ` set kvs. py_str S key = Some k}"
  using assms
proof (induction kvs arbitrary: out)
  case Nil
  then show ?case by simp
next
  case (Cons kv kvs)
  obtain key val where kv: "kv = (key, val)" by (cases kv)
  from Cons.prems(1) obtain k j where k: "py_str S key = Some k" and j: "to_json S val = Inr j"
    by (auto simp: kv)
  from k obtain t where t: "py_str_object S key = Some t" "cast_string t = Some k"
    by (auto simp: py_str_def split: option.splits)
  have d: "distinct (map fst (object_setitem out k j))"
    using Cons.prems(2) by (simp add: object_setitem_def distinct_update)
  have rest: "\<forall>kv \<in> set kvs. py_str S (fst kv) \<noteq> None \<and> (\<exists>j. to_json S (snd kv) = Inr j)"
    using Cons.prems(1) by simp
  from Cons.IH [OF rest d] obtain res where
    res: "to_json_dict S kvs (object_setitem out k j) = Inr res" "distinct (map fst res)"
      "fst ` set res = fst ` set (object_setitem out k j) \<union>
         {k. \<exists>key \<in> fst ` set kvs. py_str S key = Some k}"
    by blast
  have "fst ` set (object_setitem out k j) = {k} \<union> fst ` set out"
    by (simp add: object_setitem_def dom_update)
  with res(3) k have "fst ` set res = fst ` set out \<union>
      {k. \<exists>key \<in> fst ` set (kv # kvs). py_str S key = Some k}"
    by (auto simp: kv)
  with res(1,2) show ?case by (simp add: kv t j)
qed

text \<open>
  Claim C8. A dict whose values can be encoded and whose keys have a text is encoded as an
  \<open>Object\<close>, and the keys of that object are exactly the texts of the dict's keys: a text
  key is its own text, any other key is replaced by what \<open>str()\<close> gives for it. The key
  \<open>42\<close> becomes the key \<open>"42"\<close>.
\<close>

theorem to_json_dict_keys:
  "((\<forall>kv \<in> set kvs. py_str S (fst kv) \<noteq> None \<and> (\<exists>j. to_json S (snd kv) = Inr j)) \<longrightarrow>
      (\<exists>out. to_json S (PyDict kvs) = Inr (Object out) \<and> distinct (map fst out) \<and>
         fst ` set out = {k. \<exists>key \<in> fst ` set kvs. py_str S key = Some k})) \<and>
   py_str S (PyStr t) = Some t \<and>
   py_str S (PyInt 42) = Some ''42'' \<and>
   to_json S (PyDict [(PyInt 42, PyNone)]) = Inr (Object [(''42'', Null)])"
proof -
  have "\<exists>out. to_json S (PyDict kvs) = Inr (Object out) \<and> distinct (map fst out) \<and>
         fst ` set out = {k. \<exists>key \<in> fst ` set kvs. py_str S key = Some k}"
    if "\<forall>kv \<in> set kvs. py_str S (fst kv) \<noteq> None \<and> (\<exists>j. to_json S (snd kv) = Inr j)"
    using dict_keys_acc [OF that, of "[]"] by auto
  moreover have "py_str S (PyStr t) = Some t" by (simp add: py_str_simps)
  moreover have "py_str S (PyInt 42) = Some ''42''"
    by (simp add: py_str_simps int_text_defs)
  moreover have "to_json S (PyDict [(PyInt 42, PyNone)]) = Inr (Object [(''42'', Null)])"
    by (simp add: py_str_object_def cast_string_def int_text_defs object_setitem_def)
  ultimately show ?thesis by blast
qed

theorem to_json_dict_keys_witness:
  "\<exists>out. to_json (\<lambda>_. [])
            (PyDict [(PyInt 7, PyBool True), (PyStr ''name'', PyInt 1), (PyStr ''7'', PyNone)])
          = Inr (Object out) \<and>
     distinct (map fst out) \<and> fst ` set out = {''7'', ''name''}"
proof -
  let ?kvs = "[(PyInt 7, PyBool True), (PyStr ''name'', PyInt 1), (PyStr ''7'', PyNone)]"
  have h: "\<forall>kv \<in> set ?kvs. py_str (\<lambda>_. []) (fst kv) \<noteq> None \<and>
             (\<exists>j. to_json (\<lambda>_. []) (snd kv) = Inr j)"
    by (simp add: py_str_simps int_text_defs to_json_PyInt)
  have k: "{k. \<exists>key \<in> fst ` set ?kvs. py_str (\<lambda>_. []) key = Some k} = {''7'', ''name''}"
    by (auto simp add: py_str_simps int_text_defs)
  have "(\<forall>kv \<in> set ?kvs. py_str (\<lambda>_. []) (fst kv) \<noteq> None \<and>
           (\<exists>j. to_json (\<lambda>_. []) (snd kv) = Inr j)) \<longrightarrow>
        (\<exists>out. to_json (\<lambda>_. []) (PyDict ?kvs) = Inr (Object out) \<and> distinct (map fst out) \<and>
           fst ` set out = {k. \<exists>key \<in> fst ` set ?kvs. py_str (\<lambda>_. []) key = Some k})"
    using to_json_dict_keys [of ?kvs "\<lambda>_. []"] by (rule conjunct1)
  from this h have "\<exists>out. to_json (\<lambda>_. []) (PyDict ?kvs) = Inr (Object out) \<and>
      distinct (map fst out) \<and>
      fst ` set out = {k. \<exists>key \<in> fst ` set ?kvs. py_str (\<lambda>_. []) key = Some k}"
    by (rule mp)
  then show ?thesis unfolding k .
qed

subsection \<open>Round trip\<close>

lemma update_fresh: "k \<notin> fst ` set al \<Longrightarrow> AList.update k v al = al @ [(k, v)]"
  by (induction al) auto

lemma from_json_array_ok:
  "(\<And>el. el \<in> set els \<Longrightarrow> from_json el = Inr (d el)) \<Longrightarrow>
   from_json_array els acc = Inr (acc @ map d els)"
  by (induction els arbitrary: acc) simp_all

lemma from_json_object_ok:
  "(\<And>kv. kv \<in> set kvs \<Longrightarrow> utf8_valid (fst kv) \<and> from_json (snd kv) = Inr (d (snd kv))) \<Longrightarrow>
   distinct (map fst kvs) \<Longrightarrow> PyStr ` fst ` set kvs \<inter> fst ` set acc = {} \<Longrightarrow>
   from_json_object kvs acc = Inr (acc @ map (\<lambda>kv. (PyStr (fst kv), d (snd kv))) kvs)"
proof (induction kvs arbitrary: acc)
  case Nil
  then show ?case by simp
next
  case (Cons kv kvs)
  obtain k v where kv: "kv = (k, v)" by (cases kv)
  from Cons.prems(1) [of kv] have ok: "utf8_valid k" "from_json v = Inr (d v)"
    by (simp_all add: kv)
  from Cons.prems have fresh: "PyStr k \<notin> fst ` set acc" by (auto simp: kv)
  have step: "dict_setitem acc (PyStr k) (d v) = acc @ [(PyStr k, d v)]"
    using fresh by (simp add: dict_setitem_def update_fresh)
  have disj: "PyStr ` fst ` set kvs \<inter> fst ` set (acc @ [(PyStr k, d v)]) = {}"
    using Cons.prems by (auto simp: kv)
  have "from_json_object kvs (acc @ [(PyStr k, d v)])
      = Inr ((acc @ [(PyStr k, d v)]) @ map (\<lambda>kv. (PyStr (fst kv), d (snd kv))) kvs)"
    using Cons.prems disj by (intro Cons.IH) auto
  then show ?case by (simp add: kv ok step str_from_utf8_def)
qed

lemma to_json_seq_map:
  "(\<And>el. el \<in> set els \<Longrightarrow> to_json S (f el) = Inr el) \<Longrightarrow>
   to_json_seq S (map f els) out = Inr (out @ els)"
  by (induction els arbitrary: out) simp_all

lemma to_json_dict_map:
  "(\<And>kv. kv \<in> set kvs \<Longrightarrow> to_json S (f (snd kv)) = Inr (snd kv)) \<Longrightarrow>
   distinct (map fst kvs) \<Longrightarrow> fst ` set kvs \<inter> fst ` set out = {} \<Longrightarrow>
   to_json_dict S (map (\<lambda>kv. (PyStr (fst kv), f (snd kv))) kvs) out = Inr (out @ kvs)"
proof (induction kvs arbitrary: out)
  case Nil
  then show ?case by simp
next
  case (Cons kv kvs)
  obtain k v where kv: "kv = (k, v)" by (cases kv)
  from Cons.prems have fresh: "k \<notin> fst ` set out" by (auto simp: kv)
  have val: "to_json S (f v) = Inr v" using Cons.prems(1) [of kv] by (simp add: kv)
  have step: "object_setitem out k v = out @ [(k, v)]"
    using fresh by (simp add: object_setitem_def update_fresh)
  have disj: "fst ` set kvs \<inter> fst ` set (out @ [(k, v)]) = {}"
    using Cons.prems by (auto simp: kv)
  have "to_json_dict S (map (\<lambda>kv. (PyStr (fst kv), f (snd kv))) kvs) (out @ [(k, v)])
      = Inr ((out @ [(k, v)]) @ kvs)"
    using Cons.prems disj by (intro Cons.IH) auto
  then show ?case by (simp add: kv val step py_str_object_def cast_string_def)
qed

text \<open>
  Claim C1, as stated: for every structured value built without \<open>NumberUnsigned\<close>, encoding
  the decoded value gives the value back. It does not hold: the string that consists of
  the byte \<open>FF\<close> is such a value, but it is not well-formed UTF-8, so \<open>py::str\<close> throws and
  \<open>from_json\<close> returns no runtime value that could be encoded.
\<close>

theorem round_trip_counterexample:
  "no_unsigned (String [CHR 0xFF]) \<and> keys_distinct (String [CHR 0xFF]) \<and>
   from_json (String [CHR 0xFF]) = Inl UnicodeDecodeError"
  by (simp add: str_from_utf8_def byte_in_def)

text \<open>
  Claim C1, amended. For every structured value \<open>v\<close> that is built without
  \<open>NumberUnsigned\<close> and in which every string and every object key is well-formed UTF-8
  (the keys of an object being pairwise distinct, as in every object), decoding \<open>v\<close>
  succeeds and encoding the result gives \<open>v\<close> back: the same constructors, the same
  contents, the object entries in the same order.
\<close>

theorem round_trip:
  "no_unsigned v \<Longrightarrow> keys_distinct v \<Longrightarrow> utf8_strings v \<Longrightarrow>
   \<exists>obj. from_json v = Inr obj \<and> to_json S obj = Inr v"
proof (induction v)
  case (NumberInteger s)
  have "- (2 ^ 63) \<le> sint s" "sint s < 2 ^ 63"
    using sint_ge [of s] sint_lt [of s] by simp_all
  then show ?case by (simp add: to_json_PyInt)
next
  case (String s)
  then show ?case by (simp add: str_from_utf8_def)
next
  case (Array els)
  define d where "d = (\<lambda>el. projr (from_json el))"
  have el: "from_json el = Inr (d el) \<and> to_json S (d el) = Inr el" if "el \<in> set els" for el
  proof -
    from Array.prems that have "no_unsigned el" "keys_distinct el" "utf8_strings el"
      by simp_all
    with Array.IH [OF that] obtain obj where "from_json el = Inr obj" "to_json S obj = Inr el"
      by blast
    then show ?thesis by (simp add: d_def)
  qed
  have "from_json_array els [] = Inr ([] @ map d els)"
    using el by (intro from_json_array_ok) simp
  moreover have "to_json_seq S (map d els) [] = Inr ([] @ els)"
    using el by (intro to_json_seq_map) simp
  ultimately show ?case by simp
next
  case (Object kvs)
  define d where "d = (\<lambda>w. projr (from_json w))"
  have dk: "distinct (map fst kvs)" using Object.prems by simp
  have el: "utf8_valid (fst kv) \<and> from_json (snd kv) = Inr (d (snd kv)) \<and>
            to_json S (d (snd kv)) = Inr (snd kv)" if "kv \<in> set kvs" for kv
  proof -
    obtain k w where kv: "kv = (k, w)" by (cases kv)
    from Object.prems that
    have p: "no_unsigned (snd kv)" "keys_distinct (snd kv)" "utf8_strings (snd kv)"
      "utf8_valid (fst kv)"
      by simp_all
    from Object.IH [of kv w] that p obtain obj where
      "from_json w = Inr obj" "to_json S obj = Inr w"
      by (auto simp: kv)
    with p(4) show ?thesis by (simp add: d_def kv)
  qed
  have "from_json_object kvs [] = Inr ([] @ map (\<lambda>kv. (PyStr (fst kv), d (snd kv))) kvs)"
    using el dk by (intro from_json_object_ok) simp_all
  moreover have "to_json_dict S (map (\<lambda>kv. (PyStr (fst kv), d (snd kv))) kvs) []
      = Inr ([] @ kvs)"
    using el dk by (intro to_json_dict_map) simp_all
  ultimately show ?case by simp
qed simp_all

theorem round_trip_witness:
  "no_unsigned
     (Object [(''b'', Array [NumberInteger (- 1), Null, Boolean True, NumberFloat 1,
                            String [CHR 0xC3, CHR 0xA9]]),
              (''a'', Object [])]) \<and>
   keys_distinct
     (Object [(''b'', Array [NumberInteger (- 1), Null, Boolean True, NumberFloat 1,
                            String [CHR 0xC3, CHR 0xA9]]),
              (''a'', Object [])]) \<and>
   utf8_strings
     (Object [(''b'', Array [NumberInteger (- 1), Null, Boolean True, NumberFloat 1,
                            String [CHR 0xC3, CHR 0xA9]]),
              (''a'', Object [])]) \<and>
   (\<exists>obj.
      from_json
        (Object [(''b'', Array [NumberInteger (- 1), Null, Boolean True, NumberFloat 1,
                               String [CHR 0xC3, CHR 0xA9]]),
                 (''a'', Object [])]) = Inr obj \<and>
      to_json (\<lambda>_. []) obj =
        Inr (Object [(''b'', Array [NumberInteger (- 1), Null, Boolean True, NumberFloat 1,
                                   String [CHR 0xC3, CHR 0xA9]]),
                     (''a'', Object [])]))"
proof -
  let ?v = "Object [(''b'', Array [NumberInteger (- 1), Null, Boolean True, NumberFloat 1,
                                  String [CHR 0xC3, CHR 0xA9]]),
                    (''a'', Object [])]"
  have h1: "no_unsigned ?v" by simp
  have h2: "keys_distinct ?v" by simp
  have h3: "utf8_strings ?v" by (simp add: byte_in_def)
  from round_trip [OF h1 h2 h3, of "\<lambda>_. []"] h1 h2 h3 show ?thesis by blast
qed

section \<open>Properties of the docstring patcher\<close>

lemmas doc_defs =
  vineyard_add_doc_def unpack_doc_def PyBytes_Check_def PyUnicode_Check_def strndup_def
  has_doc_def PyUnicode_AsUTF8AndSize_def PyUnicode_GET_LENGTH_def PyBytes_AS_STRING_def
  PyBytes_GET_SIZE_def bytes_data_def is_none_def quoted_def

lemma funpow_fixed: "f x = x \<Longrightarrow> (f ^^ n) x = x"
  by (induction n) simp_all

text \<open>
  Where the write-once behaviour holds: on a documentable target whose slot is empty and
  can be read, the call with \<open>"hello"\<close> succeeds and the slot then reads \<open>"hello"\<close>; a call
  with \<open>"world"\<close> on the target so obtained fails with \<open>AlreadyDocumented\<close> and leaves the
  target as it is, also when it is repeated.
\<close>

lemma write_once_when_present:
  assumes "slot_empty t" and "documentable t" and "doc_attr_present t"
  shows "\<exists>t1. vineyard_add_doc t (PyStr ''hello'') = (Inr (), t1) \<and>
           doc_slot t1 = Some ''hello'' \<and>
           (\<exists>msg. vineyard_add_doc t1 (PyStr ''world'') = (Inl (AlreadyDocumented msg), t1)) \<and>
           (\<forall>n. ((\<lambda>s. snd (vineyard_add_doc s (PyStr ''world''))) ^^ n) t1 = t1)"
proof -
  have "\<exists>t1. vineyard_add_doc t (PyStr ''hello'') = (Inr (), t1) \<and>
           doc_slot t1 = Some ''hello'' \<and>
           (\<exists>msg. vineyard_add_doc t1 (PyStr ''world'') = (Inl (AlreadyDocumented msg), t1))"
    using assms
    by (cases t)
      (auto simp add: doc_defs slot_empty_def documentable_def doc_attr_present_def doc_slot_def)
  then obtain t1 msg where
    a: "vineyard_add_doc t (PyStr ''hello'') = (Inr (), t1)" and
    b: "doc_slot t1 = Some ''hello''" and
    c: "vineyard_add_doc t1 (PyStr ''world'') = (Inl (AlreadyDocumented msg), t1)"
    by blast
  from c have "(\<lambda>s. snd (vineyard_add_doc s (PyStr ''world''))) t1 = t1" by simp
  then have "\<forall>n. ((\<lambda>s. snd (vineyard_add_doc s (PyStr ''world''))) ^^ n) t1 = t1"
    by (simp add: funpow_fixed)
  with a b c show ?thesis by blast
qed

text \<open>
  Claim C3 says that the first call on a target whose slot is empty (absent or the empty
  string) succeeds. The code does so on the five known kinds and on an object whose
  \<open>__doc__\<close> is present and empty, but not on an object whose \<open>__doc__\<close> is absent and can
  be assigned: the slot is empty and the target is documentable, the attribute is written
  and reads \<open>"hello"\<close>, yet the call does not succeed but ends in \<open>SystemError\<close>, because the
  exception of the failed read is never cleared.
\<close>

theorem add_doc_absent_attr_raises:
  "slot_empty (OtherObject \<lparr>doc_attr = None, attr_settable = True\<rparr>) \<and>
   documentable (OtherObject \<lparr>doc_attr = None, attr_settable = True\<rparr>) \<and>
   vineyard_add_doc (OtherObject \<lparr>doc_attr = None, attr_settable = True\<rparr>) (PyStr ''hello'') =
     (Inl SystemError, OtherObject \<lparr>doc_attr = Some (PyStr ''hello''), attr_settable = True\<rparr>)"
  by (simp add: slot_empty_def documentable_def doc_defs)

text \<open>
  Claim C10. On a target of one of the five known kinds whose slot is empty, a call whose
  payload is neither a \<open>bytes\<close> object nor a text object succeeds and leaves the literal
  text \<open><invalid string>\<close> in the slot.
\<close>

theorem add_doc_placeholder:
  assumes "known_kind t" and "slot_empty t"
    and "\<not> PyBytes_Check d" and "\<not> PyUnicode_Check d"
  shows "\<exists>t'. vineyard_add_doc t d = (Inr (), t') \<and> doc_slot t' = Some ''<invalid string>''"
  using assms
  by (cases t) (auto simp add: doc_defs slot_empty_def known_kind_def doc_slot_def)

theorem add_doc_placeholder_witness:
  "known_kind (TypeObject \<lparr>tp_name = ''T'', tp_doc = Some []\<rparr>) \<and>
   slot_empty (TypeObject \<lparr>tp_name = ''T'', tp_doc = Some []\<rparr>) \<and>
   \<not> PyBytes_Check (PyFloat 0) \<and> \<not> PyUnicode_Check (PyFloat 0) \<and>
   (\<exists>t'. vineyard_add_doc (TypeObject \<lparr>tp_name = ''T'', tp_doc = Some []\<rparr>) (PyFloat 0)
            = (Inr (), t') \<and>
          doc_slot t' = Some ''<invalid string>'')"
proof -
  have h1: "known_kind (TypeObject \<lparr>tp_name = ''T'', tp_doc = Some []\<rparr>)"
    by (simp add: known_kind_def)
  have h2: "slot_empty (TypeObject \<lparr>tp_name = ''T'', tp_doc = Some []\<rparr>)"
    by (simp add: slot_empty_def doc_slot_def)
  have h3: "\<not> PyBytes_Check (PyFloat 0)" by (simp add: PyBytes_Check_def)
  have h4: "\<not> PyUnicode_Check (PyFloat 0)" by (simp add: PyUnicode_Check_def)
  from add_doc_placeholder [OF h1 h2 h3 h4] h1 h2 h3 h4 show ?thesis by blast
qed

text \<open>
  Claim C4, as stated: every call whose payload cannot be interpreted as valid text fails
  with \<open>InvalidText\<close>. It does not hold: the integer \<open>42\<close> is neither bytes nor text, and
  the call on a function without docstring succeeds and writes the placeholder.
\<close>

theorem add_doc_invalid_text_counterexample:
  "\<not> spec_interpretable_as_text (PyInt 42) \<and>
   vineyard_add_doc (CFunction \<lparr>ml_name = ''f'', ml_doc = None\<rparr>) (PyInt 42) =
     (Inr (), CFunction \<lparr>ml_name = ''f'', ml_doc = Some ''<invalid string>''\<rparr>)"
  by (simp add: spec_interpretable_as_text_def doc_defs)

text \<open>
  Claim C4, amended. A call whose payload is a text object without UTF-8 encoding fails
  with \<open>InvalidText\<close> and leaves the target as it is; and no other call fails with
  \<open>InvalidText\<close>.
\<close>

theorem add_doc_invalid_text:
  "(PyUnicode_Check d \<and> PyUnicode_AsUTF8AndSize d = None \<longrightarrow>
      vineyard_add_doc t d = (Inl InvalidText, t)) \<and>
   (fst (vineyard_add_doc t d) = Inl InvalidText \<longrightarrow>
      PyUnicode_Check d \<and> PyUnicode_AsUTF8AndSize d = None)"
proof -
  have "vineyard_add_doc t d = (Inl InvalidText, t)"
    if "PyUnicode_Check d \<and> PyUnicode_AsUTF8AndSize d = None"
    using that by (cases d) (simp_all add: doc_defs)
  moreover have "PyUnicode_Check d \<and> PyUnicode_AsUTF8AndSize d = None"
    if "fst (vineyard_add_doc t d) = Inl InvalidText"
    using that by (cases d; cases t) (simp_all add: doc_defs split: if_splits)
  ultimately show ?thesis by blast
qed

theorem add_doc_invalid_text_witness:
  "PyUnicode_Check (PyStrLone [0xD800]) \<and> PyUnicode_AsUTF8AndSize (PyStrLone [0xD800]) = None \<and>
   vineyard_add_doc (CFunction \<lparr>ml_name = ''f'', ml_doc = None\<rparr>) (PyStrLone [0xD800]) =
     (Inl InvalidText, CFunction \<lparr>ml_name = ''f'', ml_doc = None\<rparr>)"
proof -
  have h: "PyUnicode_Check (PyStrLone [0xD800]) \<and>
           PyUnicode_AsUTF8AndSize (PyStrLone [0xD800]) = None"
    by (simp add: PyUnicode_Check_def PyUnicode_AsUTF8AndSize_def)
  from add_doc_invalid_text [of "PyStrLone [0xD800]" "CFunction \<lparr>ml_name = ''f'', ml_doc = None\<rparr>"] h
  show ?thesis by blast
qed

end
